theory Spec2Isabelle
  imports Complex_Main
begin

section \<open>JavaScript values\<close>

text \<open>
  The two services of the timesheet system, \<^verbatim>\<open>src/services/database.js\<close> and
  \<^verbatim>\<open>src/services/validation.js\<close>, are written in JavaScript. Their values are
  modelled by one datatype. A number is a rational, one of the two infinities or NaN:
  the rounding of IEEE doubles is not modelled, and \<open>-0\<close> is identified with \<open>0\<close>
  (the code never tells them apart). A string is a list of characters. \<open>JObject\<close>
  stands for any value whose \<^verbatim>\<open>typeof\<close> is \<^verbatim>\<open>'object'\<close> and that is not null
  (an array, a plain object); the services only ever test its type and its truthiness.
\<close>

datatype num = Fin rat | PInf | NInf | NaN

datatype jsval = JUndefined | JNull | JBool bool | JNum num | JStr string | JObject

text \<open>A plain object (a record handed to the service, a result row): its keys in
  insertion order, each with its value.\<close>

type_synonym row = "(string \<times> jsval) list"

fun truthy :: "jsval \<Rightarrow> bool" where
  "truthy JUndefined = False"
| "truthy JNull = False"
| "truthy (JBool b) = b"
| "truthy (JNum (Fin r)) = (r \<noteq> 0)"
| "truthy (JNum NaN) = False"
| "truthy (JNum PInf) = True"
| "truthy (JNum NInf) = True"
| "truthy (JStr s) = (s \<noteq> [])"
| "truthy JObject = True"

text \<open>\<^verbatim>\<open>a || b\<close>.\<close>

definition js_or :: "jsval \<Rightarrow> jsval \<Rightarrow> jsval" where
  "js_or a b = (if truthy a then a else b)"

text \<open>\<^verbatim>\<open>obj[key]\<close>: the value of the key, \<^verbatim>\<open>undefined\<close> when the object has no such key.\<close>

fun get_prop :: "row \<Rightarrow> string \<Rightarrow> jsval" where
  "get_prop [] k = JUndefined"
| "get_prop ((k', v) # kvs) k = (if k' = k then v else get_prop kvs k)"

text \<open>\<^verbatim>\<open>obj[key] = v\<close>: an existing key keeps its place, a new key goes last.\<close>

fun set_prop :: "row \<Rightarrow> string \<Rightarrow> jsval \<Rightarrow> row" where
  "set_prop [] k v = [(k, v)]"
| "set_prop ((k', v') # kvs) k v =
     (if k' = k then (k, v) # kvs else (k', v') # set_prop kvs k v)"

text \<open>\<^verbatim>\<open>{...a, ...b}\<close>: the keys of \<open>a\<close>, then the keys of \<open>b\<close> assigned in order.\<close>

fun spread :: "row \<Rightarrow> row \<Rightarrow> row" where
  "spread a [] = a"
| "spread a ((k, v) # kvs) = spread (set_prop a k v) kvs"

subsection \<open>Strings\<close>

fun starts_with :: "string \<Rightarrow> string \<Rightarrow> bool" where
  "starts_with s [] = True"
| "starts_with [] (p # ps) = False"
| "starts_with (c # cs) (p # ps) = (c = p \<and> starts_with cs ps)"

text \<open>\<^verbatim>\<open>s.includes(p)\<close>: \<open>p\<close> occurs in \<open>s\<close>, case-sensitively.\<close>

fun str_includes :: "string \<Rightarrow> string \<Rightarrow> bool" where
  "str_includes [] p = (p = [])"
| "str_includes (c # cs) p = (starts_with (c # cs) p \<or> str_includes cs p)"

text \<open>\<^verbatim>\<open>s.toUpperCase()\<close> and \<^verbatim>\<open>s.toLowerCase()\<close>, on the letters of ASCII.\<close>

definition upper_char :: "char \<Rightarrow> char" where
  "upper_char c =
     (if 97 \<le> (of_char c :: nat) \<and> (of_char c :: nat) \<le> 122
      then char_of ((of_char c :: nat) - 32) else c)"


definition toUpperCase :: "string \<Rightarrow> string" where
  "toUpperCase s = map upper_char s"


text \<open>\<^verbatim>\<open>parts.join(sep)\<close>.\<close>

fun join :: "string \<Rightarrow> string list \<Rightarrow> string" where
  "join sep [] = []"
| "join sep [x] = x"
| "join sep (x # y # ys) = x @ sep @ join sep (y # ys)"

text \<open>Decimal digits of a natural number, and the text of a number. The text of an
  integer is exact; for a number with a fractional part the model writes the integer
  part and up to 17 fractional digits by long division, where JavaScript writes the
  shortest text that reads back as the same double.\<close>

definition digit_char :: "nat \<Rightarrow> char" where
  "digit_char d = ''0123456789'' ! d"

fun nat_text_fuel :: "nat \<Rightarrow> nat \<Rightarrow> string" where
  "nat_text_fuel 0 n = []"
| "nat_text_fuel (Suc f) n =
     (if n < 10 then [digit_char n] else nat_text_fuel f (n div 10) @ [digit_char (n mod 10)])"

definition nat_text :: "nat \<Rightarrow> string" where
  "nat_text n = nat_text_fuel (Suc n) n"

fun frac_text :: "nat \<Rightarrow> rat \<Rightarrow> string" where
  "frac_text 0 r = []"
| "frac_text (Suc f) r =
     (if r = 0 then []
      else digit_char (nat \<lfloor>r * 10\<rfloor>) # frac_text f (r * 10 - of_int \<lfloor>r * 10\<rfloor>))"

definition rat_text :: "rat \<Rightarrow> string" where
  "rat_text r =
     (let a = \<bar>r\<bar>; i = \<lfloor>a\<rfloor>; f = a - of_int i
      in (if r < 0 then ''-'' else []) @ nat_text (nat i) @
         (if f = 0 then [] else ''.'' @ frac_text 17 f))"

fun num_text :: "num \<Rightarrow> string" where
  "num_text (Fin r) = rat_text r"
| "num_text PInf = ''Infinity''"
| "num_text NInf = ''-Infinity''"
| "num_text NaN = ''NaN''"

text \<open>\<^verbatim>\<open>String(v)\<close> and template interpolation \<^verbatim>\<open>${v}\<close>.\<close>

fun js_String :: "jsval \<Rightarrow> string" where
  "js_String JUndefined = ''undefined''"
| "js_String JNull = ''null''"
| "js_String (JBool b) = (if b then ''true'' else ''false'')"
| "js_String (JNum n) = num_text n"
| "js_String (JStr s) = s"
| "js_String JObject = ''[object Object]''"

text \<open>\<^verbatim>\<open>JSON.stringify(obj)\<close> of a plain object of primitive values. A key whose value
  is \<^verbatim>\<open>undefined\<close> is left out, a number that is not finite is written \<^verbatim>\<open>null\<close>, and
  a nested object (which no row holds) is written \<^verbatim>\<open>{}\<close>. Of the characters of a
  string only the quote and the backslash are escaped here.\<close>

fun json_escape :: "string \<Rightarrow> string" where
  "json_escape [] = []"
| "json_escape (c # cs) =
     (if c = CHR ''\"'' \<or> c = CHR 0x5C then CHR 0x5C # c # json_escape cs
      else c # json_escape cs)"

definition json_string :: "string \<Rightarrow> string" where
  "json_string s = ''\"'' @ json_escape s @ ''\"''"

fun json_value :: "jsval \<Rightarrow> string" where
  "json_value JUndefined = ''null''"
| "json_value JNull = ''null''"
| "json_value (JBool b) = (if b then ''true'' else ''false'')"
| "json_value (JNum (Fin r)) = rat_text r"
| "json_value (JNum n) = ''null''"
| "json_value (JStr s) = json_string s"
| "json_value JObject = ''{}''"

definition JSON_stringify :: "row \<Rightarrow> string" where
  "JSON_stringify obj =
     ''{'' @ join '','' (map (\<lambda>(k, v). json_string k @ '':'' @ json_value v)
                         (filter (\<lambda>(k, v). v \<noteq> JUndefined) obj)) @ ''}''"


subsection \<open>Numbers\<close>

text \<open>Arithmetic and comparison on numbers, with the IEEE rules for the infinities and
  NaN (every comparison with NaN is false).\<close>

fun num_add :: "num \<Rightarrow> num \<Rightarrow> num" where
  "num_add (Fin a) (Fin b) = Fin (a + b)"
| "num_add NaN y = NaN"
| "num_add x NaN = NaN"
| "num_add PInf NInf = NaN"
| "num_add NInf PInf = NaN"
| "num_add PInf y = PInf"
| "num_add NInf y = NInf"
| "num_add x PInf = PInf"
| "num_add x NInf = NInf"

fun num_neg :: "num \<Rightarrow> num" where
  "num_neg (Fin a) = Fin (- a)"
| "num_neg PInf = NInf"
| "num_neg NInf = PInf"
| "num_neg NaN = NaN"

definition num_sub :: "num \<Rightarrow> num \<Rightarrow> num" where
  "num_sub x y = num_add x (num_neg y)"

fun num_lt :: "num \<Rightarrow> num \<Rightarrow> bool" where
  "num_lt (Fin a) (Fin b) = (a < b)"
| "num_lt NaN y = False"
| "num_lt x NaN = False"
| "num_lt PInf y = False"
| "num_lt x NInf = False"
| "num_lt NInf y = True"
| "num_lt x PInf = True"


text \<open>\<^verbatim>\<open>Math.min\<close> and \<^verbatim>\<open>Math.max\<close> of two numbers: NaN when either is NaN.\<close>

definition Math_min :: "num \<Rightarrow> num \<Rightarrow> num" where
  "Math_min x y = (if x = NaN \<or> y = NaN then NaN else if num_lt y x then y else x)"

definition Math_max :: "num \<Rightarrow> num \<Rightarrow> num" where
  "Math_max x y = (if x = NaN \<or> y = NaN then NaN else if num_lt x y then y else x)"




subsection \<open>Reading numbers from text\<close>

definition is_digit :: "char \<Rightarrow> bool" where
  "is_digit c = (48 \<le> (of_char c :: nat) \<and> (of_char c :: nat) \<le> 57)"

text \<open>White space as \<^verbatim>\<open>trim\<close>, \<^verbatim>\<open>\s\<close> and the number readers see it: space, tab, line
  feed, vertical tab, form feed, carriage return (the white space beyond ASCII is not
  modelled).\<close>

definition is_space :: "char \<Rightarrow> bool" where
  "is_space c = ((of_char c :: nat) = 32 \<or> (9 \<le> (of_char c :: nat) \<and> (of_char c :: nat) \<le> 13))"

definition digit_val :: "char \<Rightarrow> nat" where
  "digit_val c = (of_char c :: nat) - 48"

definition digits_val :: "string \<Rightarrow> nat" where
  "digits_val ds = foldl (\<lambda>n c. 10 * n + digit_val c) 0 ds"

text \<open>An optional sign: whether it is a minus, and the rest of the text.\<close>

fun read_sign :: "string \<Rightarrow> bool \<times> string" where
  "read_sign [] = (False, [])"
| "read_sign (c # cs) =
     (if c = CHR ''-'' then (True, cs) else if c = CHR ''+'' then (False, cs) else (False, c # cs))"

text \<open>The exponent part \<^verbatim>\<open>e[+-]digits\<close> of a decimal literal (0 when there is none), and
  the text after it.\<close>

definition read_exponent :: "string \<Rightarrow> int \<times> string" where
  "read_exponent s =
     (case s of
        [] \<Rightarrow> (0, s)
      | c # cs \<Rightarrow>
          if c = CHR ''e'' \<or> c = CHR ''E'' then
            (case read_sign cs of
               (neg, ds) \<Rightarrow>
                 (let e = takeWhile is_digit ds
                  in if e = [] then (0, s)
                     else (if neg then - int (digits_val e) else int (digits_val e),
                           dropWhile is_digit ds)))
          else (0, s))"

text \<open>The longest decimal literal at the start of a text (a sign, then \<^verbatim>\<open>Infinity\<close> or
  digits with an optional fraction and exponent), and the text after it; \<open>None\<close> when
  the text starts with no literal.\<close>

definition read_decimal :: "string \<Rightarrow> (num \<times> string) option" where
  "read_decimal s =
     (case read_sign s of
        (neg, s2) \<Rightarrow>
          if starts_with s2 ''Infinity'' then Some (if neg then NInf else PInf, drop 8 s2)
          else
            (let ip = takeWhile is_digit s2;
                 s3 = dropWhile is_digit s2;
                 dot = (s3 \<noteq> [] \<and> hd s3 = CHR ''.'');
                 fp = (if dot then takeWhile is_digit (tl s3) else []);
                 s4 = (if dot then dropWhile is_digit (tl s3) else s3)
             in if ip = [] \<and> fp = [] then None
                else
                  (case read_exponent s4 of
                     (e, rest) \<Rightarrow>
                       (let m = of_nat (digits_val ip) + of_nat (digits_val fp) / 10 ^ length fp;
                            v = m * (10 powi e)
                        in Some (Fin (if neg then - v else v), rest)))))"

text \<open>\<^verbatim>\<open>parseFloat\<close> of a string: leading white space is skipped, the longest prefix
  that is a decimal literal is read, and NaN is the answer when there is none.\<close>

definition parseFloat_str :: "string \<Rightarrow> num" where
  "parseFloat_str s =
     (case read_decimal (dropWhile is_space s) of None \<Rightarrow> NaN | Some (v, rest) \<Rightarrow> v)"

text \<open>\<^verbatim>\<open>parseFloat(v)\<close> reads the text of \<open>v\<close>. A number reads back from its own text;
  the text of \<^verbatim>\<open>undefined\<close>, \<^verbatim>\<open>null\<close>, a boolean or an object starts with no number.\<close>

fun parseFloat :: "jsval \<Rightarrow> num" where
  "parseFloat (JNum n) = n"
| "parseFloat (JStr s) = parseFloat_str s"
| "parseFloat v = NaN"

text \<open>\<^verbatim>\<open>parseInt(v)\<close>: the integer at the start of the text of \<open>v\<close>. For a finite number
  written in plain decimal notation that is its integer part; the infinities have no
  digits to read. Hexadecimal text is not modelled.\<close>

definition parseInt_str :: "string \<Rightarrow> num" where
  "parseInt_str s =
     (case read_sign (dropWhile is_space s) of
        (neg, s2) \<Rightarrow>
          (let ip = takeWhile is_digit s2
           in if ip = [] then NaN
              else Fin (if neg then - of_nat (digits_val ip) else of_nat (digits_val ip))))"

fun parseInt :: "jsval \<Rightarrow> num" where
  "parseInt (JNum (Fin r)) = Fin (if r < 0 then - of_int \<lfloor>- r\<rfloor> else of_int \<lfloor>r\<rfloor>)"
| "parseInt (JStr s) = parseInt_str s"
| "parseInt v = NaN"

text \<open>\<^verbatim>\<open>x || 0\<close> on a number.\<close>

definition or_zero :: "num \<Rightarrow> num" where
  "or_zero x = (if truthy (JNum x) then x else Fin 0)"


section \<open>The database service\<close>

subsection \<open>Statements\<close>

text \<open>
  \<^verbatim>\<open>DatabaseService\<close> builds the text of an SQL statement and hands it, with its
  parameters, to the client of the store. A statement is modelled by its syntax tree,
  one constructor for each statement the service builds and \<open>Raw\<close> for any other text
  a caller gives to \<^verbatim>\<open>execute\<close>; \<open>sql_text\<close> is the text the code builds for it (runs of
  white space written as one space). The column list of a table definition is not
  written out.
\<close>

datatype entry_cond =
  CEmployee | CDate | CDateFrom | CDateTo | CBusinessUnit | CProject | CApproved

datatype stmt =
    CreateTable string
  | CreateIndex string string "string list"
  | InsertInto bool string "string list"
  | SelectAll string "string list" "string option" bool bool
  | SelectEntries "entry_cond list" "string option"
  | SelectDailyTotals
  | UpdateById string "string list"
  | DeleteById string
  | SelectById string
  | Raw string

fun cond_text :: "entry_cond \<Rightarrow> string" where
  "cond_text CEmployee = ''te.employee_id = ?''"
| "cond_text CDate = ''te.date = ?''"
| "cond_text CDateFrom = ''te.date >= ?''"
| "cond_text CDateTo = ''te.date <= ?''"
| "cond_text CBusinessUnit = ''te.business_unit = ?''"
| "cond_text CProject = ''te.project_id = ?''"
| "cond_text CApproved = ''te.approved = ?''"

definition entries_select :: string where
  "entries_select =
     ''SELECT te.*, e.name as employee_name, e.role as employee_role, '' @
     ''bu.name as business_unit_name, p.name as project_name, p.contract_type, '' @
     ''j.name as job_name, wo.description as work_order_description, '' @
     ''cc.description as cost_code_description, cc.rate as cost_code_rate, '' @
     ''cc.billable as cost_code_billable, wt.name as work_type_name, '' @
     ''wt.multiplier as work_type_multiplier '' @
     ''FROM timesheet_entries te '' @
     ''LEFT JOIN employees e ON te.employee_id = e.id '' @
     ''LEFT JOIN business_units bu ON te.business_unit = bu.code '' @
     ''LEFT JOIN projects p ON te.project_id = p.id '' @
     ''LEFT JOIN jobs j ON te.job_id = j.id '' @
     ''LEFT JOIN work_orders wo ON te.work_order_id = wo.id '' @
     ''LEFT JOIN cost_codes cc ON te.cost_code = cc.code '' @
     ''LEFT JOIN work_types wt ON te.work_type = wt.id ''"

fun sql_text :: "stmt \<Rightarrow> string" where
  "sql_text (CreateTable t) = ''CREATE TABLE IF NOT EXISTS '' @ t @ '' (...)''"
| "sql_text (CreateIndex i t cs) =
     ''CREATE INDEX IF NOT EXISTS '' @ i @ '' ON '' @ t @ ''('' @ join '', '' cs @ '')''"
| "sql_text (InsertInto ignore t cs) =
     (if ignore then ''INSERT OR IGNORE INTO '' else ''INSERT INTO '') @ t @
     '' ('' @ join '', '' cs @ '') VALUES ('' @ join '', '' (map (\<lambda>c. ''?'') cs) @ '')''"
| "sql_text (SelectAll t ks ob lm ofs) =
     ''SELECT * FROM '' @ t @
     (if ks = [] then [] else '' WHERE '' @ join '' AND '' (map (\<lambda>k. k @ '' = ?'') ks)) @
     (case ob of None \<Rightarrow> [] | Some b \<Rightarrow> '' ORDER BY '' @ b) @
     (if lm then '' LIMIT ?'' else []) @
     (if ofs then '' OFFSET ?'' else [])"
| "sql_text (SelectEntries cs lm) =
     entries_select @
     (if cs = [] then [] else '' WHERE '' @ join '' AND '' (map cond_text cs)) @
     '' ORDER BY te.date DESC, te.created_at DESC'' @
     (case lm of None \<Rightarrow> [] | Some l \<Rightarrow> '' LIMIT '' @ l)"
| "sql_text SelectDailyTotals =
     ''SELECT SUM(hours_worked) as total_hours, SUM(billable_hours) as total_billable, '' @
     ''SUM(break_hours) as total_breaks, COUNT(*) as entry_count '' @
     ''FROM timesheet_entries WHERE employee_id = ? AND date = ?''"
| "sql_text (UpdateById t cs) =
     ''UPDATE '' @ t @ '' SET '' @ join '', '' (map (\<lambda>c. c @ '' = ?'') cs) @
     '', updated_at = CURRENT_TIMESTAMP WHERE id = ?''"
| "sql_text (DeleteById t) = ''DELETE FROM '' @ t @ '' WHERE id = ?''"
| "sql_text (SelectById t) = ''SELECT * FROM '' @ t @ '' WHERE id = ? LIMIT 1''"
| "sql_text (Raw s) = s"

subsection \<open>The client of the store\<close>

text \<open>
  What the client is asked (\<^verbatim>\<open>{ sql, args }\<close>) and what it answers: the fields of the
  result that the service reads. \<open>rows\<close> is \<open>None\<close> and \<open>changes\<close> is \<open>None\<close> when the result
  has no such field; \<open>insertId\<close> is then \<open>JUndefined\<close>.
\<close>

record query =
  sql :: stmt
  args :: "jsval list"

record result =
  rows :: "row list option"
  insertId :: jsval
  changes :: "int option"

datatype error = Error string | TypeError string | StoreError string

text \<open>
  The service holds the client (null until \<^verbatim>\<open>initialize\<close> has made one) and the flag
  \<^verbatim>\<open>isInitialized\<close>. The store behind the client is the component \<open>db\<close>; a client is any
  function that answers a query in a store with a result or a thrown error, and leaves
  a store.
\<close>

type_synonym 'db client = "query \<Rightarrow> 'db \<Rightarrow> (error + result) \<times> 'db"

record 'db service =
  client :: "'db client option"
  isInitialized :: bool
  db :: 'db

subsection \<open>The operations\<close>

text \<open>Each operation takes the service and returns the service it leaves, with either
  the value returned (\<open>Inr\<close>) or the error thrown (\<open>Inl\<close>). What the code writes to the
  console is not modelled.\<close>

text \<open>\<^verbatim>\<open>execute(sql, params)\<close>, lines 297-311. Reading \<^verbatim>\<open>execute\<close> of a null client is a
  TypeError. The \<^verbatim>\<open>catch\<close> throws the same error again.\<close>

definition execute :: "'db service \<Rightarrow> stmt \<Rightarrow> jsval list \<Rightarrow> (error + result) \<times> 'db service" where
  "execute s st params =
     (if \<not> isInitialized s \<and> \<not> str_includes (sql_text st) ''CREATE''
      then (Inl (Error ''Database not initialized''), s)
      else
        (case client s of
           None \<Rightarrow> (Inl (TypeError ''Cannot read properties of null''), s)
         | Some c \<Rightarrow>
             (case c \<lparr>sql = st, args = params\<rparr> (db s) of
                (r, d) \<Rightarrow> (r, s\<lparr>db := d\<rparr>))))"

text \<open>\<^verbatim>\<open>insertOrIgnore(table, data)\<close>, lines 318-331: the result, or \<^verbatim>\<open>false\<close> (here \<open>None\<close>)
  when anything was thrown.\<close>

definition insertOrIgnore :: "'db service \<Rightarrow> string \<Rightarrow> row \<Rightarrow> result option \<times> 'db service" where
  "insertOrIgnore s table data =
     (case execute s (InsertInto True table (map fst data)) (map snd data) of
        (Inl e, s') \<Rightarrow> (None, s')
      | (Inr r, s') \<Rightarrow> (Some r, s'))"

text \<open>\<^verbatim>\<open>logAudit(tableName, recordId, action, oldValues, newValues, userId)\<close>, lines
  617-633. A snapshot is a row or null (\<open>None\<close>). Nothing is returned and nothing is
  thrown.\<close>

definition auditData :: "string \<Rightarrow> jsval \<Rightarrow> string \<Rightarrow> row option \<Rightarrow> row option \<Rightarrow> jsval \<Rightarrow> row" where
  "auditData tableName recordId action oldValues newValues userId =
     [(''table_name'', JStr tableName),
      (''record_id'', JStr (js_String recordId)),
      (''action'', JStr action),
      (''old_values'', case oldValues of None \<Rightarrow> JNull | Some v \<Rightarrow> JStr (JSON_stringify v)),
      (''new_values'', case newValues of None \<Rightarrow> JNull | Some v \<Rightarrow> JStr (JSON_stringify v)),
      (''user_id'', userId)]"

definition logAudit ::
  "'db service \<Rightarrow> string \<Rightarrow> jsval \<Rightarrow> string \<Rightarrow> row option \<Rightarrow> row option \<Rightarrow> jsval \<Rightarrow> 'db service" where
  "logAudit s tableName recordId action oldValues newValues userId =
     snd (insertOrIgnore s ''audit_log''
            (auditData tableName recordId action oldValues newValues userId))"

text \<open>\<^verbatim>\<open>result.changes > 0\<close>: false when the result has no such field.\<close>

definition changes_pos :: "result \<Rightarrow> bool" where
  "changes_pos r = (case changes r of None \<Rightarrow> False | Some n \<Rightarrow> n > 0)"

text \<open>\<^verbatim>\<open>getById(table, id)\<close>, lines 595-606: the first row, or null (\<open>None\<close>) when there is
  none or when anything was thrown.\<close>

definition first_row :: "result \<Rightarrow> row option" where
  "first_row r = (case rows r of None \<Rightarrow> None | Some [] \<Rightarrow> None | Some (x # xs) \<Rightarrow> Some x)"

definition getById :: "'db service \<Rightarrow> string \<Rightarrow> jsval \<Rightarrow> (error + row option) \<times> 'db service" where
  "getById s table ident =
     (case execute s (SelectById table) [ident] of
        (Inl e, s') \<Rightarrow> (Inr None, s')
      | (Inr r, s') \<Rightarrow> (Inr (first_row r), s'))"

text \<open>\<^verbatim>\<open>insert(table, data, userId)\<close>, lines 513-532. The value returned is
  \<^verbatim>\<open>result.insertId || result.changes > 0\<close>.\<close>

definition insert_db :: "'db service \<Rightarrow> string \<Rightarrow> row \<Rightarrow> jsval \<Rightarrow> (error + jsval) \<times> 'db service" where
  "insert_db s table data userId =
     (case execute s (InsertInto False table (map fst data)) (map snd data) of
        (Inl e, s1) \<Rightarrow> (Inl e, s1)
      | (Inr r, s1) \<Rightarrow>
          (let s2 = (if truthy (insertId r) \<or> changes_pos r
                     then logAudit s1 table (js_or (insertId r) (get_prop data ''id''))
                            ''INSERT'' None (Some data) userId
                     else s1)
           in (Inr (js_or (insertId r) (JBool (changes_pos r))), s2)))"

text \<open>\<^verbatim>\<open>update(table, id, data, userId)\<close>, lines 541-563. \<^verbatim>\<open>getById\<close> throws nothing, so the
  old record is a row or null; \<^verbatim>\<open>{...oldRecord, ...data}\<close> of a null old record is a
  copy of \<open>data\<close>.\<close>

definition update_db ::
  "'db service \<Rightarrow> string \<Rightarrow> jsval \<Rightarrow> row \<Rightarrow> jsval \<Rightarrow> (error + bool) \<times> 'db service" where
  "update_db s table ident data userId =
     (case getById s table ident of
        (got, s0) \<Rightarrow>
          (let oldRecord = (case got of Inl e \<Rightarrow> None | Inr r \<Rightarrow> r)
           in case execute s0 (UpdateById table (map fst data)) (map snd data @ [ident]) of
                (Inl e, s1) \<Rightarrow> (Inl e, s1)
              | (Inr r, s1) \<Rightarrow>
                  (let s2 = (if changes_pos r
                             then logAudit s1 table ident ''UPDATE'' oldRecord
                                    (Some (spread (case oldRecord of None \<Rightarrow> [] | Some old \<Rightarrow> old) data))
                                    userId
                             else s1)
                   in (Inr (changes_pos r), s2))))"

text \<open>\<^verbatim>\<open>delete(table, id, userId)\<close>, lines 571-588.\<close>

definition delete_db :: "'db service \<Rightarrow> string \<Rightarrow> jsval \<Rightarrow> jsval \<Rightarrow> (error + bool) \<times> 'db service" where
  "delete_db s table ident userId =
     (case getById s table ident of
        (got, s0) \<Rightarrow>
          (let record = (case got of Inl e \<Rightarrow> None | Inr r \<Rightarrow> r)
           in case execute s0 (DeleteById table) [ident] of
                (Inl e, s1) \<Rightarrow> (Inl e, s1)
              | (Inr r, s1) \<Rightarrow>
                  (let s2 = (if changes_pos r
                             then logAudit s1 table ident ''DELETE'' record None userId
                             else s1)
                   in (Inr (changes_pos r), s2))))"

text \<open>\<^verbatim>\<open>getAll(table, filters, options)\<close>, lines 339-372. \<open>filters\<close> and \<open>options\<close> are
  plain objects.\<close>

definition getAll_sql :: "string \<Rightarrow> row \<Rightarrow> row \<Rightarrow> stmt" where
  "getAll_sql table filters options =
     SelectAll table (map fst filters)
       (if truthy (get_prop options ''orderBy'') then Some (js_String (get_prop options ''orderBy''))
        else None)
       (truthy (get_prop options ''limit'')) (truthy (get_prop options ''offset''))"

definition getAll_params :: "row \<Rightarrow> row \<Rightarrow> jsval list" where
  "getAll_params filters options =
     map snd filters @
     (if truthy (get_prop options ''limit'') then [get_prop options ''limit''] else []) @
     (if truthy (get_prop options ''offset'') then [get_prop options ''offset''] else [])"

definition getAll :: "'db service \<Rightarrow> string \<Rightarrow> row \<Rightarrow> row \<Rightarrow> (error + row list) \<times> 'db service" where
  "getAll s table filters options =
     (case execute s (getAll_sql table filters options) (getAll_params filters options) of
        (Inl e, s') \<Rightarrow> (Inr [], s')
      | (Inr r, s') \<Rightarrow> (Inr (case rows r of None \<Rightarrow> [] | Some rs \<Rightarrow> rs), s'))"

text \<open>\<^verbatim>\<open>getTimesheetEntries(filters, options)\<close>, lines 379-460: a condition and a
  parameter for each filter that is set.\<close>

definition entry_filters :: "row \<Rightarrow> (entry_cond \<times> jsval) list" where
  "entry_filters filters =
     (if truthy (get_prop filters ''employeeId'') then [(CEmployee, get_prop filters ''employeeId'')] else []) @
     (if truthy (get_prop filters ''date'') then [(CDate, get_prop filters ''date'')] else []) @
     (if truthy (get_prop filters ''dateFrom'') then [(CDateFrom, get_prop filters ''dateFrom'')] else []) @
     (if truthy (get_prop filters ''dateTo'') then [(CDateTo, get_prop filters ''dateTo'')] else []) @
     (if truthy (get_prop filters ''businessUnit'') then [(CBusinessUnit, get_prop filters ''businessUnit'')] else []) @
     (if truthy (get_prop filters ''projectId'') then [(CProject, get_prop filters ''projectId'')] else []) @
     (if get_prop filters ''approved'' \<noteq> JUndefined
      then [(CApproved, JNum (Fin (if truthy (get_prop filters ''approved'') then 1 else 0)))] else [])"

definition entries_sql :: "row \<Rightarrow> row \<Rightarrow> stmt" where
  "entries_sql filters options =
     SelectEntries (map fst (entry_filters filters))
       (if truthy (get_prop options ''limit'') then Some (js_String (get_prop options ''limit''))
        else None)"

definition getTimesheetEntries :: "'db service \<Rightarrow> row \<Rightarrow> row \<Rightarrow> (error + row list) \<times> 'db service" where
  "getTimesheetEntries s filters options =
     (case execute s (entries_sql filters options) (map snd (entry_filters filters)) of
        (Inl e, s') \<Rightarrow> (Inr [], s')
      | (Inr r, s') \<Rightarrow> (Inr (case rows r of None \<Rightarrow> [] | Some rs \<Rightarrow> rs), s'))"

text \<open>\<^verbatim>\<open>calculateDailyTotals(employeeId, date)\<close>, lines 467-505. The object returned when
  there is no row, or when anything was thrown, has no \<^verbatim>\<open>regular_hours\<close>,
  \<^verbatim>\<open>overtime_hours\<close> and \<^verbatim>\<open>doubletime_hours\<close>: these three are \<open>None\<close> there.\<close>

record totals =
  total_hours :: num
  regular_hours :: "num option"
  overtime_hours :: "num option"
  doubletime_hours :: "num option"
  total_billable :: num
  total_breaks :: num
  entry_count :: num

definition zero_totals :: totals where
  "zero_totals =
     \<lparr>total_hours = Fin 0, regular_hours = None, overtime_hours = None,
      doubletime_hours = None, total_billable = Fin 0, total_breaks = Fin 0,
      entry_count = Fin 0\<rparr>"

definition premium_totals :: "row \<Rightarrow> totals" where
  "premium_totals r =
     (let totalHours = or_zero (parseFloat (get_prop r ''total_hours''));
          regularHours = Math_min totalHours (Fin 8);
          overtimeHours = Math_max (Fin 0) (Math_min (num_sub totalHours (Fin 8)) (Fin 4));
          doubletimeHours = Math_max (Fin 0) (num_sub totalHours (Fin 12))
      in \<lparr>total_hours = totalHours,
          regular_hours = Some regularHours,
          overtime_hours = Some overtimeHours,
          doubletime_hours = Some doubletimeHours,
          total_billable = or_zero (parseFloat (get_prop r ''total_billable'')),
          total_breaks = or_zero (parseFloat (get_prop r ''total_breaks'')),
          entry_count = or_zero (parseInt (get_prop r ''entry_count''))\<rparr>)"

definition calculateDailyTotals ::
  "'db service \<Rightarrow> jsval \<Rightarrow> jsval \<Rightarrow> (error + totals) \<times> 'db service" where
  "calculateDailyTotals s employeeId date =
     (case execute s SelectDailyTotals [employeeId, date] of
        (Inl e, s') \<Rightarrow> (Inr zero_totals, s')
      | (Inr r, s') \<Rightarrow>
          (case first_row r of
             None \<Rightarrow> (Inr zero_totals, s')
           | Some x \<Rightarrow> (Inr (premium_totals x), s')))"


section \<open>The store\<close>

text \<open>
  The store behind the client is an SQL engine holding the tables that \<^verbatim>\<open>createTables\<close>
  (lines 45-233) declares. It is modelled as far as the statements of \<^verbatim>\<open>insert\<close>,
  \<^verbatim>\<open>update\<close>, \<^verbatim>\<open>delete\<close>, \<^verbatim>\<open>getById\<close>, \<^verbatim>\<open>calculateDailyTotals\<close> and the table definitions
  go, each declaration of the schema with the meaning its text states:
  \<^item> a table is the list of its rows in the order of insertion, a row holding every column
    of the table in the order of declaration;
  \<^item> a column left out of an INSERT takes its default, or NULL;
  \<^item> NOT NULL, CHECK, PRIMARY KEY and UNIQUE are enforced, and as SQL has it NULL equals
    nothing, itself included: two rows conflict on a key only when all its columns are
    not NULL and equal;
  \<^item> a CHECK fails only when its condition is false (not when it is NULL);
  \<^item> the generated column \<^verbatim>\<open>billable_hours\<close> is computed whenever its row is written,
    and stored;
  \<^item> FOREIGN KEY clauses are not enforced (the service never turns enforcement on);
  \<^item> values are stored as they are bound, with no conversion between text and numbers;
    a boolean is bound as 1 or 0, NaN as NULL, and \<^verbatim>\<open>undefined\<close> or an object cannot be
    bound;
  \<^item> the answer carries the fields the service reads: \<open>rows\<close>, \<open>changes\<close> (the number of
    rows written) and \<open>insertId\<close> (the id given to a row of a table whose key is
    \<^verbatim>\<open>id INTEGER PRIMARY KEY AUTOINCREMENT\<close>).
  Every other statement (the listing queries, raw text) is answered by a parameter.
\<close>

datatype dflt = NoDefault | Default jsval | CurrentTimestamp

record column =
  cname :: string
  notnull :: bool
  dflt :: dflt

record store =
  tables :: "string \<Rightarrow> row list option"
  seq :: "string \<Rightarrow> int"
  now :: string

record table_def =
  columns :: "column list"
  rowid_key :: bool
  uniques :: "string list list"
  checks :: "(row \<Rightarrow> bool) list"
  generated :: "(string \<times> (store \<Rightarrow> row \<Rightarrow> jsval)) list"

definition col :: "string \<Rightarrow> column" where
  "col n = \<lparr>cname = n, notnull = False, dflt = NoDefault\<rparr>"

definition col_nn :: "string \<Rightarrow> column" where
  "col_nn n = \<lparr>cname = n, notnull = True, dflt = NoDefault\<rparr>"

definition col_d :: "string \<Rightarrow> jsval \<Rightarrow> column" where
  "col_d n v = \<lparr>cname = n, notnull = False, dflt = Default v\<rparr>"

definition col_nn_d :: "string \<Rightarrow> jsval \<Rightarrow> column" where
  "col_nn_d n v = \<lparr>cname = n, notnull = True, dflt = Default v\<rparr>"

definition col_now :: "string \<Rightarrow> column" where
  "col_now n = \<lparr>cname = n, notnull = False, dflt = CurrentTimestamp\<rparr>"

text \<open>SQL equality: true only of two equal values that are not NULL.\<close>

definition sql_eq :: "jsval \<Rightarrow> jsval \<Rightarrow> bool" where
  "sql_eq a b = (a \<noteq> JNull \<and> b \<noteq> JNull \<and> a = b)"

text \<open>\<^verbatim>\<open>CHECK (c IN (...))\<close>: passes on NULL and on a text of the list.\<close>

definition check_in :: "string \<Rightarrow> string list \<Rightarrow> row \<Rightarrow> bool" where
  "check_in c vs r =
     (case get_prop r c of JNull \<Rightarrow> True | JStr x \<Rightarrow> x \<in> set vs | _ \<Rightarrow> False)"

text \<open>\<^verbatim>\<open>CHECK (hours_worked >= 0 AND hours_worked <= 24)\<close>. Text compares greater than
  every number.\<close>

definition check_hours_worked :: "row \<Rightarrow> bool" where
  "check_hours_worked r =
     (case get_prop r ''hours_worked'' of
        JNull \<Rightarrow> True
      | JNum (Fin q) \<Rightarrow> 0 \<le> q \<and> q \<le> 24
      | _ \<Rightarrow> False)"

text \<open>\<^verbatim>\<open>CHECK (break_hours >= 0)\<close>.\<close>

definition check_break_hours :: "row \<Rightarrow> bool" where
  "check_break_hours r =
     (case get_prop r ''break_hours'' of
        JNull \<Rightarrow> True
      | JNum (Fin q) \<Rightarrow> 0 \<le> q
      | JNum PInf \<Rightarrow> True
      | JStr x \<Rightarrow> True
      | _ \<Rightarrow> False)"

text \<open>\<^verbatim>\<open>cost_code IN (SELECT code FROM cost_codes WHERE billable = 1)\<close>.\<close>

definition billable_code :: "store \<Rightarrow> jsval \<Rightarrow> bool" where
  "billable_code st c =
     (case tables st ''cost_codes'' of
        None \<Rightarrow> False
      | Some ccs \<Rightarrow>
          list_ex (\<lambda>cc. sql_eq (get_prop cc ''billable'') (JNum (Fin 1)) \<and>
                         sql_eq c (get_prop cc ''code'')) ccs)"

text \<open>\<^verbatim>\<open>billable_hours REAL GENERATED ALWAYS AS (CASE WHEN cost_code IN (...) THEN
  hours_worked ELSE 0 END) STORED\<close>, lines 163-167.\<close>

definition billable_hours :: "store \<Rightarrow> row \<Rightarrow> jsval" where
  "billable_hours st r =
     (if billable_code st (get_prop r ''cost_code'') then get_prop r ''hours_worked''
      else JNum (Fin 0))"

definition status_values :: "string list" where
  "status_values = [''Active'', ''On Hold'', ''Completed'', ''Cancelled'']"

definition business_units_table :: table_def where
  "business_units_table =
     \<lparr>columns = [col ''code'', col_nn ''name'', col_nn ''bu_type'', col ''customer_num'',
        col ''customer_name'', col ''region'', col ''division'', col_d ''active'' (JNum (Fin 1)),
        col_now ''created_at'', col_now ''updated_at''],
      rowid_key = False, uniques = [[''code'']], checks = [], generated = []\<rparr>"

definition employees_table :: table_def where
  "employees_table =
     \<lparr>columns = [col ''id'', col_nn ''name'', col_nn ''role'', col_nn ''business_unit'',
        col ''cost_center'', col ''pay_grade'', col ''hire_date'', col ''supervisor'',
        col_d ''active'' (JNum (Fin 1)), col_now ''created_at'', col_now ''updated_at''],
      rowid_key = False, uniques = [[''id'']], checks = [], generated = []\<rparr>"

definition projects_table :: table_def where
  "projects_table =
     \<lparr>columns = [col ''id'', col_nn ''name'', col_nn ''business_unit'', col ''customer'',
        col ''contract_type'', col_d ''status'' (JStr ''Active''), col ''start_date'',
        col ''end_date'', col ''project_manager'', col_d ''estimated_hours'' (JNum (Fin 0)),
        col_d ''actual_hours'' (JNum (Fin 0)), col_now ''created_at'', col_now ''updated_at''],
      rowid_key = False, uniques = [[''id'']],
      checks = [check_in ''contract_type'' [''Time & Materials'', ''Fixed Bid'', ''Unit Price''],
                check_in ''status'' status_values],
      generated = []\<rparr>"

definition jobs_table :: table_def where
  "jobs_table =
     \<lparr>columns = [col ''id'', col_nn ''project_id'', col_nn ''name'', col ''description'',
        col_d ''estimated_hours'' (JNum (Fin 0)), col_d ''actual_hours'' (JNum (Fin 0)),
        col_d ''status'' (JStr ''Active''), col_now ''created_at'', col_now ''updated_at''],
      rowid_key = False, uniques = [[''id'']],
      checks = [check_in ''status'' status_values], generated = []\<rparr>"

definition work_orders_table :: table_def where
  "work_orders_table =
     \<lparr>columns = [col ''id'', col_nn ''job_id'', col_nn ''description'', col ''cost_code'',
        col_d ''estimated_hours'' (JNum (Fin 0)), col_d ''actual_hours'' (JNum (Fin 0)),
        col_d ''priority'' (JStr ''Medium''), col_d ''status'' (JStr ''Open''),
        col_now ''created_at'', col_now ''updated_at''],
      rowid_key = False, uniques = [[''id'']],
      checks = [check_in ''priority'' [''Low'', ''Medium'', ''High'', ''Critical''],
                check_in ''status'' [''Open'', ''In Progress'', ''Completed'', ''Cancelled'']],
      generated = []\<rparr>"

definition cost_codes_table :: table_def where
  "cost_codes_table =
     \<lparr>columns = [col ''code'', col_nn ''description'', col_nn ''category'',
        col_nn_d ''rate'' (JNum (Fin 0)), col_d ''billable'' (JNum (Fin 1)),
        col_d ''active'' (JNum (Fin 1)), col_now ''created_at'', col_now ''updated_at''],
      rowid_key = False, uniques = [[''code'']], checks = [], generated = []\<rparr>"

definition work_types_table :: table_def where
  "work_types_table =
     \<lparr>columns = [col ''id'', col_nn ''name'', col_nn_d ''multiplier'' (JNum (Fin 1)),
        col_d ''min_hours'' (JNum (Fin 0)), col_d ''max_hours'' (JNum (Fin 24)),
        col ''description'', col_now ''created_at''],
      rowid_key = False, uniques = [[''id'']], checks = [], generated = []\<rparr>"

text \<open>The key of the uniqueness constraint of \<^verbatim>\<open>timesheet_entries\<close>, line 185.\<close>

definition entry_key :: "string list" where
  "entry_key = [''employee_id'', ''date'', ''project_id'', ''job_id'', ''work_order_id'', ''work_type'']"

definition timesheet_entries_table :: table_def where
  "timesheet_entries_table =
     \<lparr>columns = [col ''id'', col_nn ''employee_id'', col_nn ''date'', col_nn ''business_unit'',
        col_nn ''project_id'', col ''job_id'', col ''work_order_id'',
        col_d ''work_type'' (JStr ''REGULAR''), col ''cost_code'', col_nn ''hours_worked'',
        col_d ''break_hours'' (JNum (Fin 0)), col ''description'', col ''billable_hours'',
        col_d ''calculated_rate'' (JNum (Fin 0)), col_d ''total_cost'' (JNum (Fin 0)),
        col_d ''approved'' (JNum (Fin 0)), col ''approved_by'', col ''approved_at'',
        col_d ''rejected'' (JNum (Fin 0)), col ''rejection_reason'',
        col_now ''created_at'', col_now ''updated_at''],
      rowid_key = True, uniques = [[''id''], entry_key],
      checks = [check_hours_worked, check_break_hours],
      generated = [(''billable_hours'', billable_hours)]\<rparr>"

definition audit_log_table :: table_def where
  "audit_log_table =
     \<lparr>columns = [col ''id'', col_nn ''table_name'', col_nn ''record_id'', col_nn ''action'',
        col ''old_values'', col ''new_values'', col ''user_id'', col_now ''timestamp''],
      rowid_key = True, uniques = [[''id'']],
      checks = [check_in ''action'' [''INSERT'', ''UPDATE'', ''DELETE'']], generated = []\<rparr>"

definition system_settings_table :: table_def where
  "system_settings_table =
     \<lparr>columns = [col ''key'', col_nn ''value'', col ''description'', col_now ''updated_at''],
      rowid_key = False, uniques = [[''key'']], checks = [], generated = []\<rparr>"

definition schema :: "string \<Rightarrow> table_def option" where
  "schema =
     map_of [(''business_units'', business_units_table), (''employees'', employees_table),
       (''projects'', projects_table), (''jobs'', jobs_table), (''work_orders'', work_orders_table),
       (''cost_codes'', cost_codes_table), (''work_types'', work_types_table),
       (''timesheet_entries'', timesheet_entries_table), (''audit_log'', audit_log_table),
       (''system_settings'', system_settings_table)]"


subsection \<open>Binding parameters\<close>

fun bind_arg :: "jsval \<Rightarrow> error + jsval" where
  "bind_arg JUndefined = Inl (TypeError ''undefined cannot be passed as argument to the database'')"
| "bind_arg JObject = Inl (TypeError ''unsupported type of argument'')"
| "bind_arg (JBool b) = Inr (JNum (Fin (if b then 1 else 0)))"
| "bind_arg (JNum NaN) = Inr JNull"
| "bind_arg v = Inr v"

fun bind_args :: "jsval list \<Rightarrow> error + jsval list" where
  "bind_args [] = Inr []"
| "bind_args (v # vs) =
     (case bind_arg v of
        Inl e \<Rightarrow> Inl e
      | Inr b \<Rightarrow> (case bind_args vs of Inl e \<Rightarrow> Inl e | Inr bs \<Rightarrow> Inr (b # bs)))"

subsection \<open>Writing a row\<close>

definition column_names :: "table_def \<Rightarrow> string list" where
  "column_names td = map cname (columns td)"

definition default_value :: "store \<Rightarrow> dflt \<Rightarrow> jsval" where
  "default_value st d =
     (case d of NoDefault \<Rightarrow> JNull | Default v \<Rightarrow> v | CurrentTimestamp \<Rightarrow> JStr (now st))"

text \<open>The row of an INSERT: each column with the value given for it, or its default.\<close>

definition fill_row :: "table_def \<Rightarrow> store \<Rightarrow> string list \<Rightarrow> jsval list \<Rightarrow> row" where
  "fill_row td st cs vs =
     map (\<lambda>c. (cname c,
                case map_of (zip cs vs) (cname c) of
                  Some v \<Rightarrow> v
                | None \<Rightarrow> default_value st (dflt c)))
         (columns td)"

text \<open>The generated columns of a row, computed from the row as written.\<close>

definition apply_generated :: "table_def \<Rightarrow> store \<Rightarrow> row \<Rightarrow> row" where
  "apply_generated td st r = fold (\<lambda>(c, f) r'. set_prop r' c (f st r)) (generated td) r"

definition unique_conflict :: "string list \<Rightarrow> row \<Rightarrow> row list \<Rightarrow> bool" where
  "unique_conflict key r others =
     list_ex (\<lambda>r'. list_all (\<lambda>c. sql_eq (get_prop r c) (get_prop r' c)) key) others"

text \<open>A row may stand beside the other rows of its table.\<close>

definition constraints_ok :: "table_def \<Rightarrow> row \<Rightarrow> row list \<Rightarrow> bool" where
  "constraints_ok td r others =
     (list_all (\<lambda>c. notnull c \<longrightarrow> get_prop r (cname c) \<noteq> JNull) (columns td) \<and>
      list_all (\<lambda>chk. chk r) (checks td) \<and>
      list_all (\<lambda>key. \<not> unique_conflict key r others) (uniques td))"

text \<open>The id of a row as an integer (0 when it is none), and the next id of an
  AUTOINCREMENT key: one more than the largest id the table has ever held.\<close>

definition row_id :: "row \<Rightarrow> int" where
  "row_id r = (case get_prop r ''id'' of JNum (Fin q) \<Rightarrow> \<lfloor>q\<rfloor> | _ \<Rightarrow> 0)"

definition next_id :: "store \<Rightarrow> string \<Rightarrow> row list \<Rightarrow> int" where
  "next_id st t rs = fold max (map row_id rs) (max 0 (seq st t)) + 1"

definition is_integer :: "jsval \<Rightarrow> bool" where
  "is_integer v = (case v of JNum (Fin q) \<Rightarrow> of_int \<lfloor>q\<rfloor> = q | _ \<Rightarrow> False)"

definition ok_result :: "jsval \<Rightarrow> int \<Rightarrow> result" where
  "ok_result ident n = \<lparr>rows = Some [], insertId = ident, changes = Some n\<rparr>"

text \<open>\<^verbatim>\<open>INSERT [OR IGNORE] INTO t (cs) VALUES (?, ...)\<close>.\<close>

definition store_insert ::
  "bool \<Rightarrow> string \<Rightarrow> string list \<Rightarrow> jsval list \<Rightarrow> store \<Rightarrow> (error + result) \<times> store" where
  "store_insert ignore t cs vs st =
     (case (tables st t, schema t) of
        (Some rs, Some td) \<Rightarrow>
          if cs = [] then (Inl (StoreError ''syntax error''), st)
          else if \<not> list_all (\<lambda>c. c \<in> set (column_names td)) cs
          then (Inl (StoreError ''no such column''), st)
          else if list_ex (\<lambda>c. c \<in> set (map fst (generated td))) cs
          then (Inl (StoreError ''cannot INSERT into generated column''), st)
          else
            (case bind_args vs of
               Inl e \<Rightarrow> (Inl e, st)
             | Inr bs \<Rightarrow>
                 (let r0 = fill_row td st cs bs;
                      r1 = (if rowid_key td \<and> get_prop r0 ''id'' = JNull
                            then set_prop r0 ''id'' (JNum (Fin (of_int (next_id st t rs))))
                            else r0);
                      r = apply_generated td st r1
                  in if rowid_key td \<and> \<not> is_integer (get_prop r ''id'')
                     then (Inl (StoreError ''datatype mismatch''), st)
                     else if constraints_ok td r rs
                     then (Inr (ok_result (if rowid_key td then get_prop r ''id'' else JUndefined) 1),
                           st\<lparr>tables := (tables st)(t \<mapsto> rs @ [r]),
                              seq := (seq st)(t := max (seq st t) (row_id r))\<rparr>)
                     else if ignore then (Inr (ok_result JUndefined 0), st)
                     else (Inl (StoreError ''constraint failed''), st)))
      | _ \<Rightarrow> (Inl (StoreError ''no such table''), st))"

text \<open>The first row of a list that meets a condition, with the rows before and after it.\<close>

fun split_first :: "('a \<Rightarrow> bool) \<Rightarrow> 'a list \<Rightarrow> ('a list \<times> 'a \<times> 'a list) option" where
  "split_first P [] = None"
| "split_first P (x # xs) =
     (if P x then Some ([], x, xs)
      else (case split_first P xs of
              None \<Rightarrow> None
            | Some (before, y, after) \<Rightarrow> Some (x # before, y, after)))"

text \<open>The assignments of an UPDATE, made in order.\<close>

fun assign :: "row \<Rightarrow> string list \<Rightarrow> jsval list \<Rightarrow> row" where
  "assign r (c # cs) (v # vs) = assign (set_prop r c v) cs vs"
| "assign r cs vs = r"

text \<open>\<^verbatim>\<open>UPDATE t SET c = ?, ..., updated_at = CURRENT_TIMESTAMP WHERE id = ?\<close>. The last
  parameter is the id. The id is a key of its table, so at most one row has it: the
  first such row is the one written.\<close>

definition store_update ::
  "string \<Rightarrow> string list \<Rightarrow> jsval list \<Rightarrow> store \<Rightarrow> (error + result) \<times> store" where
  "store_update t cs vs st =
     (case (tables st t, schema t) of
        (Some rs, Some td) \<Rightarrow>
          if cs = [] \<or> length vs \<noteq> Suc (length cs) then (Inl (StoreError ''syntax error''), st)
          else if \<not> list_all (\<lambda>c. c \<in> set (column_names td)) (cs @ [''updated_at'', ''id''])
          then (Inl (StoreError ''no such column''), st)
          else if list_ex (\<lambda>c. c \<in> set (map fst (generated td))) cs
          then (Inl (StoreError ''cannot UPDATE generated column''), st)
          else
            (case bind_args vs of
               Inl e \<Rightarrow> (Inl e, st)
             | Inr bs \<Rightarrow>
                 (case split_first (\<lambda>r. sql_eq (get_prop r ''id'') (last bs)) rs of
                    None \<Rightarrow> (Inr (ok_result JUndefined 0), st)
                  | Some (before, old, after) \<Rightarrow>
                      (let r1 = set_prop (assign old cs (butlast bs)) ''updated_at'' (JStr (now st));
                           r = apply_generated td st r1
                       in if rowid_key td \<and> \<not> is_integer (get_prop r ''id'')
                          then (Inl (StoreError ''datatype mismatch''), st)
                          else if constraints_ok td r (before @ after)
                          then (Inr (ok_result JUndefined 1),
                                st\<lparr>tables := (tables st)(t \<mapsto> before @ r # after)\<rparr>)
                          else (Inl (StoreError ''constraint failed''), st))))
      | _ \<Rightarrow> (Inl (StoreError ''no such table''), st))"

text \<open>\<^verbatim>\<open>DELETE FROM t WHERE id = ?\<close>.\<close>

definition store_delete :: "string \<Rightarrow> jsval list \<Rightarrow> store \<Rightarrow> (error + result) \<times> store" where
  "store_delete t vs st =
     (case (tables st t, schema t) of
        (Some rs, Some td) \<Rightarrow>
          if ''id'' \<notin> set (column_names td) then (Inl (StoreError ''no such column''), st)
          else
            (case bind_args vs of
               Inr [ident] \<Rightarrow>
                 (let kept = filter (\<lambda>r. \<not> sql_eq (get_prop r ''id'') ident) rs
                  in (Inr (ok_result JUndefined (int (length rs) - int (length kept))),
                      st\<lparr>tables := (tables st)(t \<mapsto> kept)\<rparr>))
             | Inr bs \<Rightarrow> (Inl (StoreError ''wrong number of arguments''), st)
             | Inl e \<Rightarrow> (Inl e, st))
      | _ \<Rightarrow> (Inl (StoreError ''no such table''), st))"

text \<open>\<^verbatim>\<open>SELECT * FROM t WHERE id = ? LIMIT 1\<close>.\<close>

definition store_select_by_id :: "string \<Rightarrow> jsval list \<Rightarrow> store \<Rightarrow> (error + result) \<times> store" where
  "store_select_by_id t vs st =
     (case (tables st t, schema t) of
        (Some rs, Some td) \<Rightarrow>
          if ''id'' \<notin> set (column_names td) then (Inl (StoreError ''no such column''), st)
          else
            (case bind_args vs of
               Inr [ident] \<Rightarrow>
                 (Inr \<lparr>rows = Some (case find (\<lambda>r. sql_eq (get_prop r ''id'') ident) rs of
                                      None \<Rightarrow> [] | Some r \<Rightarrow> [r]),
                       insertId = JUndefined, changes = Some 0\<rparr>, st)
             | Inr bs \<Rightarrow> (Inl (StoreError ''wrong number of arguments''), st)
             | Inl e \<Rightarrow> (Inl e, st))
      | _ \<Rightarrow> (Inl (StoreError ''no such table''), st))"

text \<open>\<^verbatim>\<open>SUM(c)\<close> over rows: NULL when no row has a value of \<open>c\<close> that is not NULL, else
  the sum of the values (a text counting as 0).\<close>

fun sql_number :: "jsval \<Rightarrow> num" where
  "sql_number (JNum n) = n"
| "sql_number v = Fin 0"

definition sql_sum :: "string \<Rightarrow> row list \<Rightarrow> jsval" where
  "sql_sum c rs =
     (let vs = filter (\<lambda>v. v \<noteq> JNull) (map (\<lambda>r. get_prop r c) rs)
      in if vs = [] then JNull else JNum (foldl num_add (Fin 0) (map sql_number vs)))"

text \<open>The aggregate query of \<^verbatim>\<open>calculateDailyTotals\<close>, lines 469-477: always one row.\<close>

definition day_entries :: "jsval \<Rightarrow> jsval \<Rightarrow> row list \<Rightarrow> row list" where
  "day_entries employeeId date rs =
     filter (\<lambda>r. sql_eq (get_prop r ''employee_id'') employeeId \<and>
                 sql_eq (get_prop r ''date'') date) rs"

definition store_daily_totals :: "jsval list \<Rightarrow> store \<Rightarrow> (error + result) \<times> store" where
  "store_daily_totals vs st =
     (case tables st ''timesheet_entries'' of
        None \<Rightarrow> (Inl (StoreError ''no such table''), st)
      | Some rs \<Rightarrow>
          (case bind_args vs of
             Inr [employeeId, date] \<Rightarrow>
               (let es = day_entries employeeId date rs
                in (Inr \<lparr>rows = Some [[(''total_hours'', sql_sum ''hours_worked'' es),
                                        (''total_billable'', sql_sum ''billable_hours'' es),
                                        (''total_breaks'', sql_sum ''break_hours'' es),
                                        (''entry_count'', JNum (Fin (of_nat (length es))))]],
                         insertId = JUndefined, changes = Some 0\<rparr>, st))
           | Inr bs \<Rightarrow> (Inl (StoreError ''wrong number of arguments''), st)
           | Inl e \<Rightarrow> (Inl e, st)))"

text \<open>\<^verbatim>\<open>CREATE TABLE IF NOT EXISTS\<close> and \<^verbatim>\<open>CREATE INDEX IF NOT EXISTS\<close>.\<close>

definition store_create_table :: "string \<Rightarrow> store \<Rightarrow> (error + result) \<times> store" where
  "store_create_table t st =
     (case schema t of
        None \<Rightarrow> (Inl (StoreError ''syntax error''), st)
      | Some td \<Rightarrow>
          (Inr (ok_result JUndefined 0),
           (case tables st t of
              None \<Rightarrow> st\<lparr>tables := (tables st)(t \<mapsto> [])\<rparr>
            | Some rs \<Rightarrow> st)))"

definition store_create_index :: "string \<Rightarrow> store \<Rightarrow> (error + result) \<times> store" where
  "store_create_index t st =
     (case tables st t of
        None \<Rightarrow> (Inl (StoreError ''no such table''), st)
      | Some rs \<Rightarrow> (Inr (ok_result JUndefined 0), st))"

text \<open>The client of this store. \<open>other\<close> answers the statements that are not modelled.\<close>

definition sqlite :: "store client \<Rightarrow> store client" where
  "sqlite other q st =
     (case sql q of
        CreateTable t \<Rightarrow> store_create_table t st
      | CreateIndex i t cs \<Rightarrow> store_create_index t st
      | InsertInto ignore t cs \<Rightarrow> store_insert ignore t cs (args q) st
      | UpdateById t cs \<Rightarrow> store_update t cs (args q) st
      | DeleteById t \<Rightarrow> store_delete t (args q) st
      | SelectById t \<Rightarrow> store_select_by_id t (args q) st
      | SelectDailyTotals \<Rightarrow> store_daily_totals (args q) st
      | _ \<Rightarrow> other q st)"

section \<open>The validation service\<close>

text \<open>
  \<^verbatim>\<open>ValidationService\<close> (\<^verbatim>\<open>src/services/validation.js\<close>) checks a record of a named kind
  and returns the errors, the warnings and the sanitized record. A record is a plain
  object. The service reads the reference data (\<^verbatim>\<open>src/data/dropdown-data.js\<close>) and the
  clock.
\<close>

subsection \<open>Text\<close>












subsection \<open>Conversions\<close>







subsection \<open>Reference data\<close>

text \<open>The catalogs of \<^verbatim>\<open>dropdown-data.js\<close>, with the fields that validation reads.\<close>

record business_unit =
  bu_code :: string
  bu_active :: bool

record employee =
  emp_id :: string
  emp_active :: bool

record project =
  proj_id :: string
  proj_status :: string
  proj_startDate :: string
  proj_endDate :: string


definition employees :: "employee list" where
  "employees =
     [\<lparr>emp_id = ''EMP001'', emp_active = True\<rparr>, \<lparr>emp_id = ''EMP002'', emp_active = True\<rparr>,
      \<lparr>emp_id = ''EMP003'', emp_active = True\<rparr>, \<lparr>emp_id = ''EMP004'', emp_active = True\<rparr>,
      \<lparr>emp_id = ''EMP005'', emp_active = True\<rparr>, \<lparr>emp_id = ''EMP010'', emp_active = True\<rparr>]"

definition projects :: "project list" where
  "projects =
     [\<lparr>proj_id = ''22009017'', proj_status = ''Active'', proj_startDate = ''2024-01-01'',
       proj_endDate = ''2024-12-31''\<rparr>,
      \<lparr>proj_id = ''22009018'', proj_status = ''Active'', proj_startDate = ''2024-02-01'',
       proj_endDate = ''2024-08-30''\<rparr>,
      \<lparr>proj_id = ''22009019'', proj_status = ''Active'', proj_startDate = ''2024-01-01'',
       proj_endDate = ''2024-12-31''\<rparr>]"









subsection \<open>Dates\<close>
















subsection \<open>The field validators\<close>






















subsection \<open>Cross-field rules\<close>




subsection \<open>The rules and validate\<close>













section \<open>Notions used to state the properties of the database service\<close>

text \<open>The statements that themselves create schema, in the words of the specification
  of \<^verbatim>\<open>execute\<close>: the table and index definitions, and raw text whose first word is
  CREATE.\<close>

fun creates_schema :: "stmt \<Rightarrow> bool" where
  "creates_schema (CreateTable t) = True"
| "creates_schema (CreateIndex i t cs) = True"
| "creates_schema (Raw x) = starts_with (toUpperCase (dropWhile is_space x)) ''CREATE''"
| "creates_schema st = False"

text \<open>A client whose store holds no rows: every query is answered with an empty
  result.\<close>

definition empty_client :: "unit client" where
  "empty_client q d = (Inr \<lparr>rows = Some [], insertId = JUndefined, changes = Some 0\<rparr>, d)"

text \<open>The query by which \<^verbatim>\<open>logAudit\<close> appends to the audit log.\<close>

definition audit_append :: "query \<Rightarrow> bool" where
  "audit_append q =
     (case sql q of InsertInto ignore t cs \<Rightarrow> ignore \<and> t = ''audit_log'' | _ \<Rightarrow> False)"

text \<open>A client that answers like \<open>c\<close>, except that every append to the audit log
  throws.\<close>

definition failing_audit :: "'db client \<Rightarrow> 'db client" where
  "failing_audit c q d = (if audit_append q then (Inl (StoreError ''disk I/O error''), d) else c q d)"

text \<open>A service whose connection was closed (\<^verbatim>\<open>close\<close>, lines 650-660, resets the flag and
  keeps the client), a service that was never given a client, and a client that
  reports one written row for every query.\<close>

definition closed_service :: "unit service" where
  "closed_service = \<lparr>client = Some empty_client, isInitialized = False, db = ()\<rparr>"

definition no_client_service :: "unit service" where
  "no_client_service = \<lparr>client = None, isInitialized = True, db = ()\<rparr>"

definition one_row_client :: "unit client" where
  "one_row_client q d = (Inr \<lparr>rows = Some [], insertId = JNum (Fin 1), changes = Some 1\<rparr>, d)"

definition one_row_service :: "unit service" where
  "one_row_service = \<lparr>client = Some one_row_client, isInitialized = True, db = ()\<rparr>"









text \<open>An example: two cost codes of the reference data, and three entries of one day,
  two of them of the employee EMP001 (8 hours tagged REGULAR on a billable code, 2 hours
  tagged DOUBLETIME on a code that is not billable).\<close>

definition entry_row ::
  "rat \<Rightarrow> string \<Rightarrow> string \<Rightarrow> string \<Rightarrow> string \<Rightarrow> rat \<Rightarrow> rat \<Rightarrow> rat \<Rightarrow> row" where
  "entry_row i employee date work_type cost_code hours billable breaks =
     [(''id'', JNum (Fin i)), (''employee_id'', JStr employee), (''date'', JStr date),
      (''business_unit'', JStr ''220000''), (''project_id'', JStr ''22009017''),
      (''job_id'', JNull), (''work_order_id'', JNull), (''work_type'', JStr work_type),
      (''cost_code'', JStr cost_code), (''hours_worked'', JNum (Fin hours)),
      (''break_hours'', JNum (Fin breaks)), (''description'', JNull),
      (''billable_hours'', JNum (Fin billable)), (''calculated_rate'', JNum (Fin 0)),
      (''total_cost'', JNum (Fin 0)), (''approved'', JNum (Fin 0)), (''approved_by'', JNull),
      (''approved_at'', JNull), (''rejected'', JNum (Fin 0)), (''rejection_reason'', JNull),
      (''created_at'', JStr ''2024-01-15 17:00:00''), (''updated_at'', JStr ''2024-01-15 17:00:00'')]"

definition cost_code_row :: "string \<Rightarrow> string \<Rightarrow> string \<Rightarrow> rat \<Rightarrow> rat \<Rightarrow> row" where
  "cost_code_row code description category rate billable =
     [(''code'', JStr code), (''description'', JStr description), (''category'', JStr category),
      (''rate'', JNum (Fin rate)), (''billable'', JNum (Fin billable)), (''active'', JNum (Fin 1)),
      (''created_at'', JStr ''2024-01-01 00:00:00''), (''updated_at'', JStr ''2024-01-01 00:00:00'')]"

definition example_entries :: "row list" where
  "example_entries =
     [entry_row 1 ''EMP001'' ''2024-01-15'' ''REGULAR'' ''ELEC-WIRE'' 8 8 (1 / 2),
      entry_row 2 ''EMP001'' ''2024-01-15'' ''DOUBLETIME'' ''ADMIN'' 2 0 0,
      entry_row 3 ''EMP002'' ''2024-01-15'' ''REGULAR'' ''ELEC-WIRE'' 8 8 0]"

definition example_store :: store where
  "example_store =
     \<lparr>tables = [''timesheet_entries'' \<mapsto> example_entries,
                 ''audit_log'' \<mapsto> [],
                 ''cost_codes'' \<mapsto> [cost_code_row ''ELEC-WIRE'' ''Electrical Wiring'' ''Labor'' 75 1,
                                     cost_code_row ''ADMIN'' ''Administrative Tasks'' ''Overhead'' 40 0]],
      seq = (\<lambda>t. if t = ''timesheet_entries'' then 3 else 0),
      now = ''2024-01-16 09:00:00''\<rparr>"

definition no_other :: "store client" where
  "no_other q st = (Inl (StoreError ''not modelled''), st)"

definition example_service :: "store service" where
  "example_service = \<lparr>client = Some (sqlite no_other), isInitialized = True, db = example_store\<rparr>"

text \<open>A new entry of 8 hours, on a billable cost code and on one that is not.\<close>

definition new_entry :: "string \<Rightarrow> row" where
  "new_entry cost_code =
     [(''employee_id'', JStr ''EMP001''), (''date'', JStr ''2024-01-16''),
      (''business_unit'', JStr ''220000''), (''project_id'', JStr ''22009017''),
      (''cost_code'', JStr cost_code), (''hours_worked'', JNum (Fin 8))]"

text \<open>The same new entry, booked on a job and a work order.\<close>

definition entry_on_job :: row where
  "entry_on_job =
     new_entry ''ELEC-WIRE'' @ [(''job_id'', JStr ''J001''), (''work_order_id'', JStr ''WO001'')]"

section \<open>Notions used to state the properties of the validation service\<close>












section \<open>Properties of the database service\<close>

subsection \<open>Auxiliary facts\<close>

lemma execute_not_initialized:
  "\<not> isInitialized s \<Longrightarrow> \<not> str_includes (sql_text st) ''CREATE'' \<Longrightarrow>
     execute s st ps = (Inl (Error ''Database not initialized''), s)"
  by (simp add: execute_def)

lemma execute_no_client:
  "isInitialized s \<or> str_includes (sql_text st) ''CREATE'' \<Longrightarrow> client s = None \<Longrightarrow>
     execute s st ps = (Inl (TypeError ''Cannot read properties of null''), s)"
  by (auto simp add: execute_def)

lemma execute_client:
  "isInitialized s \<or> str_includes (sql_text st) ''CREATE'' \<Longrightarrow> client s = Some c \<Longrightarrow>
     execute s st ps =
       (fst (c \<lparr>sql = st, args = ps\<rparr> (db s)), s\<lparr>db := snd (c \<lparr>sql = st, args = ps\<rparr> (db s))\<rparr>)"
  by (auto simp add: execute_def split: prod.split)

lemma execute_keeps_client:
  "client (snd (execute s st ps)) = client s \<and>
   isInitialized (snd (execute s st ps)) = isInitialized s"
  by (simp add: execute_def split: option.split prod.split)

lemma insertOrIgnore_keeps_client:
  "client (snd (insertOrIgnore s t d)) = client s \<and>
   isInitialized (snd (insertOrIgnore s t d)) = isInitialized s"
proof -
  obtain r s' where e: "execute s (InsertInto True t (map fst d)) (map snd d) = (r, s')"
    by (cases "execute s (InsertInto True t (map fst d)) (map snd d)")
  have "client s' = client s \<and> isInitialized s' = isInitialized s"
    using execute_keeps_client [of s "InsertInto True t (map fst d)" "map snd d"] e by simp
  then show ?thesis
    by (cases r) (simp_all add: insertOrIgnore_def e)
qed

lemma logAudit_keeps_client:
  "client (logAudit s t i a ov nv u) = client s \<and>
   isInitialized (logAudit s t i a ov nv u) = isInitialized s"
  by (simp add: logAudit_def insertOrIgnore_keeps_client)

lemma getById_keeps_client:
  "client (snd (getById s t i)) = client s \<and>
   isInitialized (snd (getById s t i)) = isInitialized s"
proof -
  obtain r s' where e: "execute s (SelectById t) [i] = (r, s')"
    by (cases "execute s (SelectById t) [i]")
  have "client s' = client s \<and> isInitialized s' = isInitialized s"
    using execute_keeps_client [of s "SelectById t" "[i]"] e by simp
  then show ?thesis
    by (cases r) (simp_all add: getById_def e)
qed

subsection \<open>The guard of execute\<close>

text \<open>
  Claim C9, as the specification words it, fails: a statement that creates no schema but
  whose text holds the letters CREATE passes the guard of an uninitialized service and is
  handed to the client. Here the service was closed, and the statement is the one
  \<^verbatim>\<open>getAll('employees', {CREATED_AT: '2024-01-15'})\<close> builds.
\<close>

theorem execute_guard_counterexample:
  "\<not> isInitialized closed_service \<and>
   \<not> creates_schema (SelectAll ''employees'' [''CREATED_AT''] None False False) \<and>
   sql_text (SelectAll ''employees'' [''CREATED_AT''] None False False) =
     ''SELECT * FROM employees WHERE CREATED_AT = ?'' \<and>
   fst (execute closed_service (SelectAll ''employees'' [''CREATED_AT''] None False False)
          [JStr ''2024-01-15'']) =
     Inr \<lparr>rows = Some [], insertId = JUndefined, changes = Some 0\<rparr>"
  by (simp add: closed_service_def execute_def empty_client_def)

text \<open>
  Claim C9 (amended). While the service is uninitialized, \<^verbatim>\<open>execute\<close> throws
  "Database not initialized" and leaves the service as it was whenever the text of the
  statement does not contain CREATE (in capitals); a statement whose text contains CREATE
  is handed to the client, and the table and index definitions are such statements. In
  every state, an error thrown by the client is thrown by \<^verbatim>\<open>execute\<close>: the same error when
  the guard lets the statement through. A service with no client always throws.
\<close>

theorem execute_guard_amended:
  "(\<not> isInitialized s \<and> \<not> str_includes (sql_text st) ''CREATE'' \<longrightarrow>
       execute s st ps = (Inl (Error ''Database not initialized''), s)) \<and>
   (\<not> isInitialized s \<and> str_includes (sql_text st) ''CREATE'' \<and> client s = Some c \<longrightarrow>
       fst (execute s st ps) = fst (c \<lparr>sql = st, args = ps\<rparr> (db s))) \<and>
   (client s = Some c \<and> fst (c \<lparr>sql = st, args = ps\<rparr> (db s)) = Inl e \<longrightarrow>
       (\<exists>e'. fst (execute s st ps) = Inl e') \<and>
       (isInitialized s \<or> str_includes (sql_text st) ''CREATE'' \<longrightarrow> fst (execute s st ps) = Inl e)) \<and>
   (client s = None \<longrightarrow> (\<exists>e'. fst (execute s st ps) = Inl e')) \<and>
   str_includes (sql_text (CreateTable t)) ''CREATE'' \<and>
   str_includes (sql_text (CreateIndex i t cs)) ''CREATE''"
proof -
  have a: "\<not> isInitialized s \<and> \<not> str_includes (sql_text st) ''CREATE'' \<longrightarrow>
       execute s st ps = (Inl (Error ''Database not initialized''), s)"
    by (simp add: execute_not_initialized)
  have b: "\<not> isInitialized s \<and> str_includes (sql_text st) ''CREATE'' \<and> client s = Some c \<longrightarrow>
       fst (execute s st ps) = fst (c \<lparr>sql = st, args = ps\<rparr> (db s))"
    by (simp add: execute_client)
  have c1: "client s = Some c \<and> fst (c \<lparr>sql = st, args = ps\<rparr> (db s)) = Inl e \<longrightarrow>
       (\<exists>e'. fst (execute s st ps) = Inl e')"
    by (cases "isInitialized s \<or> str_includes (sql_text st) ''CREATE''")
       (auto simp add: execute_client execute_not_initialized)
  have c2: "client s = Some c \<and> fst (c \<lparr>sql = st, args = ps\<rparr> (db s)) = Inl e \<longrightarrow>
       (isInitialized s \<or> str_includes (sql_text st) ''CREATE'' \<longrightarrow> fst (execute s st ps) = Inl e)"
    by (auto simp add: execute_client)
  have d: "client s = None \<longrightarrow> (\<exists>e'. fst (execute s st ps) = Inl e')"
    by (cases "isInitialized s \<or> str_includes (sql_text st) ''CREATE''")
       (auto simp add: execute_no_client execute_not_initialized)
  have e: "str_includes (sql_text (CreateTable t)) ''CREATE''" by simp
  have f: "str_includes (sql_text (CreateIndex i t cs)) ''CREATE''" by simp
  from a b c1 c2 d e f show ?thesis by blast
qed

text \<open>The amended claim at the closed service: a lookup by id throws, a table
  definition reaches the client.\<close>

theorem execute_guard_amended_witness:
  "\<not> isInitialized closed_service \<and>
   \<not> str_includes (sql_text (SelectById ''employees'')) ''CREATE'' \<and>
   execute closed_service (SelectById ''employees'') [JStr ''EMP001''] =
     (Inl (Error ''Database not initialized''), closed_service) \<and>
   fst (execute closed_service (CreateTable ''employees'') []) =
     Inr \<lparr>rows = Some [], insertId = JUndefined, changes = Some 0\<rparr>"
  using execute_guard_amended [where s = closed_service and st = "SelectById ''employees''"
           and ps = "[JStr ''EMP001'']"]
     execute_guard_amended [where s = closed_service and st = "CreateTable ''employees''"
           and c = empty_client and ps = "[]"]
  by (simp add: closed_service_def empty_client_def)

lemma getAll_cases:
  "fst (getAll s table filters options) =
     (case fst (execute s (getAll_sql table filters options) (getAll_params filters options)) of
        Inl e \<Rightarrow> Inr []
      | Inr r \<Rightarrow> Inr (case rows r of None \<Rightarrow> [] | Some rs \<Rightarrow> rs))"
  by (simp add: getAll_def split: prod.split sum.split)

lemma getTimesheetEntries_cases:
  "fst (getTimesheetEntries s filters options) =
     (case fst (execute s (entries_sql filters options) (map snd (entry_filters filters))) of
        Inl e \<Rightarrow> Inr []
      | Inr r \<Rightarrow> Inr (case rows r of None \<Rightarrow> [] | Some rs \<Rightarrow> rs))"
  by (simp add: getTimesheetEntries_def split: prod.split sum.split)

lemma calculateDailyTotals_cases:
  "fst (calculateDailyTotals s employeeId date) =
     (case fst (execute s SelectDailyTotals [employeeId, date]) of
        Inl e \<Rightarrow> Inr zero_totals
      | Inr r \<Rightarrow> (case first_row r of None \<Rightarrow> Inr zero_totals | Some x \<Rightarrow> Inr (premium_totals x)))"
  by (simp add: calculateDailyTotals_def split: prod.split sum.split option.split)

lemma getById_cases:
  "fst (getById s table ident) =
     (case fst (execute s (SelectById table) [ident]) of
        Inl e \<Rightarrow> Inr None
      | Inr r \<Rightarrow> Inr (first_row r))"
  by (simp add: getById_def split: prod.split sum.split)

lemma insert_db_throws:
  "fst (execute s (InsertInto False table (map fst data)) (map snd data)) = Inl e \<Longrightarrow>
     fst (insert_db s table data userId) = Inl e"
  by (cases "execute s (InsertInto False table (map fst data)) (map snd data)")
     (simp add: insert_db_def)

lemma update_db_throws:
  "fst (execute (snd (getById s table ident)) (UpdateById table (map fst data))
          (map snd data @ [ident])) = Inl e \<Longrightarrow>
     fst (update_db s table ident data userId) = Inl e"
  by (cases "getById s table ident";
      cases "execute (snd (getById s table ident)) (UpdateById table (map fst data))
               (map snd data @ [ident])")
     (simp add: update_db_def)

lemma delete_db_throws:
  "fst (execute (snd (getById s table ident)) (DeleteById table) [ident]) = Inl e \<Longrightarrow>
     fst (delete_db s table ident userId) = Inl e"
  by (cases "getById s table ident";
      cases "execute (snd (getById s table ident)) (DeleteById table) [ident]")
     (simp add: delete_db_def)

subsection \<open>Reads degrade, writes propagate\<close>

text \<open>
  Claim C7. For every input and every state of the service and of its store, the reads
  \<^verbatim>\<open>getAll\<close>, \<^verbatim>\<open>getTimesheetEntries\<close>, \<^verbatim>\<open>calculateDailyTotals\<close> and \<^verbatim>\<open>getById\<close> return a value
  and never throw; when the statement they execute throws, they return the empty list,
  the zero totals and null. When the statement of \<^verbatim>\<open>insert\<close>, \<^verbatim>\<open>update\<close> or \<^verbatim>\<open>delete\<close>
  throws, the same error is thrown to the caller.
\<close>

theorem reads_degrade_writes_propagate:
  "(\<exists>rs. fst (getAll s table filters options) = Inr rs) \<and>
   (\<exists>rs. fst (getTimesheetEntries s filters options) = Inr rs) \<and>
   (\<exists>t. fst (calculateDailyTotals s employeeId date) = Inr t) \<and>
   (\<exists>r. fst (getById s table ident) = Inr r) \<and>
   (fst (execute s (getAll_sql table filters options) (getAll_params filters options)) = Inl e \<longrightarrow>
      fst (getAll s table filters options) = Inr []) \<and>
   (fst (execute s (entries_sql filters options) (map snd (entry_filters filters))) = Inl e \<longrightarrow>
      fst (getTimesheetEntries s filters options) = Inr []) \<and>
   (fst (execute s SelectDailyTotals [employeeId, date]) = Inl e \<longrightarrow>
      fst (calculateDailyTotals s employeeId date) = Inr zero_totals) \<and>
   (fst (execute s (SelectById table) [ident]) = Inl e \<longrightarrow>
      fst (getById s table ident) = Inr None) \<and>
   (fst (execute s (InsertInto False table (map fst data)) (map snd data)) = Inl e \<longrightarrow>
      fst (insert_db s table data userId) = Inl e) \<and>
   (fst (execute (snd (getById s table ident)) (UpdateById table (map fst data))
           (map snd data @ [ident])) = Inl e \<longrightarrow>
      fst (update_db s table ident data userId) = Inl e) \<and>
   (fst (execute (snd (getById s table ident)) (DeleteById table) [ident]) = Inl e \<longrightarrow>
      fst (delete_db s table ident userId) = Inl e)"
proof -
  have r1: "\<exists>rs. fst (getAll s table filters options) = Inr rs"
    by (simp add: getAll_cases split: sum.split)
  have r2: "\<exists>rs. fst (getTimesheetEntries s filters options) = Inr rs"
    by (simp add: getTimesheetEntries_cases split: sum.split)
  have r3: "\<exists>t. fst (calculateDailyTotals s employeeId date) = Inr t"
    by (simp add: calculateDailyTotals_cases split: sum.split option.split)
  have r4: "\<exists>r. fst (getById s table ident) = Inr r"
    by (simp add: getById_cases split: sum.split)
  have d1: "fst (execute s (getAll_sql table filters options) (getAll_params filters options)) = Inl e \<longrightarrow>
      fst (getAll s table filters options) = Inr []"
    by (simp add: getAll_cases)
  have d2: "fst (execute s (entries_sql filters options) (map snd (entry_filters filters))) = Inl e \<longrightarrow>
      fst (getTimesheetEntries s filters options) = Inr []"
    by (simp add: getTimesheetEntries_cases)
  have d3: "fst (execute s SelectDailyTotals [employeeId, date]) = Inl e \<longrightarrow>
      fst (calculateDailyTotals s employeeId date) = Inr zero_totals"
    by (simp add: calculateDailyTotals_cases)
  have d4: "fst (execute s (SelectById table) [ident]) = Inl e \<longrightarrow>
      fst (getById s table ident) = Inr None"
    by (simp add: getById_cases)
  note w = insert_db_throws [of s table data e userId] update_db_throws [of s table ident data e userId]
     delete_db_throws [of s table ident e userId]
  from r1 r2 r3 r4 d1 d2 d3 d4 w show ?thesis by blast
qed

text \<open>The claim at a service that has no client: every statement throws a TypeError.\<close>

theorem reads_degrade_writes_propagate_witness:
  "fst (getAll no_client_service ''employees'' [] []) = Inr [] \<and>
   fst (getTimesheetEntries no_client_service [] []) = Inr [] \<and>
   fst (calculateDailyTotals no_client_service (JStr ''EMP001'') (JStr ''2024-01-15'')) = Inr zero_totals \<and>
   fst (getById no_client_service ''employees'' (JStr ''EMP001'')) = Inr None \<and>
   fst (insert_db no_client_service ''employees'' [(''id'', JStr ''EMP001'')] JNull)
     = Inl (TypeError ''Cannot read properties of null'') \<and>
   fst (update_db no_client_service ''employees'' (JStr ''EMP001'') [(''name'', JStr ''A'')] JNull)
     = Inl (TypeError ''Cannot read properties of null'') \<and>
   fst (delete_db no_client_service ''employees'' (JStr ''EMP001'') JNull)
     = Inl (TypeError ''Cannot read properties of null'')"
proof -
  have c: "client no_client_service = None" "isInitialized no_client_service"
    by (simp_all add: no_client_service_def)
  have g: "snd (getById no_client_service ''employees'' (JStr ''EMP001'')) = no_client_service"
    by (simp add: getById_def execute_no_client c)
  show ?thesis
    using reads_degrade_writes_propagate [where s = no_client_service and table = "''employees''"
        and filters = "[]" and options = "[]" and employeeId = "JStr ''EMP001''"
        and date = "JStr ''2024-01-15''" and ident = "JStr ''EMP001''"
        and e = "TypeError ''Cannot read properties of null''"
        and data = "[(''id'', JStr ''EMP001'')]" and userId = JNull]
      reads_degrade_writes_propagate [where s = no_client_service and table = "''employees''"
        and ident = "JStr ''EMP001''"
        and e = "TypeError ''Cannot read properties of null''"
        and data = "[(''name'', JStr ''A'')]" and userId = JNull]
    by (simp add: execute_no_client c g)
qed

subsection \<open>A failing audit append\<close>

lemma execute_failing_audit:
  "\<not> audit_append \<lparr>sql = st, args = ps\<rparr> \<Longrightarrow>
     execute (s\<lparr>client := Some (failing_audit c)\<rparr>) st ps =
       (fst (execute (s\<lparr>client := Some c\<rparr>) st ps),
        (snd (execute (s\<lparr>client := Some c\<rparr>) st ps))\<lparr>client := Some (failing_audit c)\<rparr>)"
  by (simp add: execute_def failing_audit_def split: prod.split)

lemma logAudit_failing_audit:
  "client s = Some (failing_audit c) \<Longrightarrow> logAudit s t i a ov nv u = s"
  by (simp add: logAudit_def insertOrIgnore_def execute_def failing_audit_def audit_append_def)


lemma getById_failing_audit:
  "getById (s\<lparr>client := Some (failing_audit c)\<rparr>) t i =
     (fst (getById (s\<lparr>client := Some c\<rparr>) t i),
      (snd (getById (s\<lparr>client := Some c\<rparr>) t i))\<lparr>client := Some (failing_audit c)\<rparr>)"
  by (cases "execute (s\<lparr>client := Some c\<rparr>) (SelectById t) [i]";
      cases "fst (execute (s\<lparr>client := Some c\<rparr>) (SelectById t) [i])")
     (simp_all add: getById_def execute_failing_audit audit_append_def)

lemma insert_db_failing_audit:
  "insert_db (s\<lparr>client := Some (failing_audit c)\<rparr>) table data userId =
     (fst (insert_db (s\<lparr>client := Some c\<rparr>) table data userId),
      (snd (execute (s\<lparr>client := Some c\<rparr>) (InsertInto False table (map fst data)) (map snd data)))
        \<lparr>client := Some (failing_audit c)\<rparr>)"
  by (cases "execute (s\<lparr>client := Some c\<rparr>) (InsertInto False table (map fst data)) (map snd data)";
      cases "fst (execute (s\<lparr>client := Some c\<rparr>) (InsertInto False table (map fst data)) (map snd data))")
     (simp_all add: insert_db_def execute_failing_audit audit_append_def logAudit_failing_audit)

lemma update_db_failing_audit:
  "update_db (s\<lparr>client := Some (failing_audit c)\<rparr>) table ident data userId =
     (fst (update_db (s\<lparr>client := Some c\<rparr>) table ident data userId),
      (snd (execute (snd (getById (s\<lparr>client := Some c\<rparr>) table ident))
              (UpdateById table (map fst data)) (map snd data @ [ident])))
        \<lparr>client := Some (failing_audit c)\<rparr>)"
proof -
  obtain g s0 where g: "getById (s\<lparr>client := Some c\<rparr>) table ident = (g, s0)"
    by (cases "getById (s\<lparr>client := Some c\<rparr>) table ident")
  have c0: "s0\<lparr>client := Some c\<rparr> = s0"
    using getById_keeps_client [of "s\<lparr>client := Some c\<rparr>" table ident] g by simp
  obtain r s1 where e: "execute s0 (UpdateById table (map fst data)) (map snd data @ [ident]) = (r, s1)"
    by (cases "execute s0 (UpdateById table (map fst data)) (map snd data @ [ident])")
  have e': "execute (s0\<lparr>client := Some (failing_audit c)\<rparr>) (UpdateById table (map fst data))
              (map snd data @ [ident]) = (r, s1\<lparr>client := Some (failing_audit c)\<rparr>)"
    using execute_failing_audit [where st = "UpdateById table (map fst data)"
            and ps = "map snd data @ [ident]" and s = s0 and c = c]
    by (simp add: audit_append_def c0 e)
  show ?thesis
    by (cases r) (simp_all add: update_db_def Let_def getById_failing_audit g e e' logAudit_failing_audit)
qed

lemma delete_db_failing_audit:
  "delete_db (s\<lparr>client := Some (failing_audit c)\<rparr>) table ident userId =
     (fst (delete_db (s\<lparr>client := Some c\<rparr>) table ident userId),
      (snd (execute (snd (getById (s\<lparr>client := Some c\<rparr>) table ident))
              (DeleteById table) [ident]))
        \<lparr>client := Some (failing_audit c)\<rparr>)"
proof -
  obtain g s0 where g: "getById (s\<lparr>client := Some c\<rparr>) table ident = (g, s0)"
    by (cases "getById (s\<lparr>client := Some c\<rparr>) table ident")
  have c0: "s0\<lparr>client := Some c\<rparr> = s0"
    using getById_keeps_client [of "s\<lparr>client := Some c\<rparr>" table ident] g by simp
  obtain r s1 where e: "execute s0 (DeleteById table) [ident] = (r, s1)"
    by (cases "execute s0 (DeleteById table) [ident]")
  have e': "execute (s0\<lparr>client := Some (failing_audit c)\<rparr>) (DeleteById table) [ident]
              = (r, s1\<lparr>client := Some (failing_audit c)\<rparr>)"
    using execute_failing_audit [where st = "DeleteById table" and ps = "[ident]" and s = s0 and c = c]
    by (simp add: audit_append_def c0 e)
  show ?thesis
    by (cases r) (simp_all add: delete_db_def Let_def getById_failing_audit g e e' logAudit_failing_audit)
qed

text \<open>
  Claim C8. For \<^verbatim>\<open>insert\<close>, \<^verbatim>\<open>update\<close> and \<^verbatim>\<open>delete\<close>, with any client and in any state: when
  every append to the audit log throws, the operation returns (or throws) exactly what
  it does with the client as it is, and it leaves the store as the statement of the
  mutation left it: the failure of the audit step reaches neither the caller nor the
  mutation.
\<close>

theorem audit_failure_is_absorbed:
  "fst (insert_db (s\<lparr>client := Some (failing_audit c)\<rparr>) table data userId) =
     fst (insert_db (s\<lparr>client := Some c\<rparr>) table data userId) \<and>
   fst (update_db (s\<lparr>client := Some (failing_audit c)\<rparr>) table ident data userId) =
     fst (update_db (s\<lparr>client := Some c\<rparr>) table ident data userId) \<and>
   fst (delete_db (s\<lparr>client := Some (failing_audit c)\<rparr>) table ident userId) =
     fst (delete_db (s\<lparr>client := Some c\<rparr>) table ident userId) \<and>
   db (snd (insert_db (s\<lparr>client := Some (failing_audit c)\<rparr>) table data userId)) =
     db (snd (execute (s\<lparr>client := Some c\<rparr>) (InsertInto False table (map fst data)) (map snd data))) \<and>
   db (snd (update_db (s\<lparr>client := Some (failing_audit c)\<rparr>) table ident data userId)) =
     db (snd (execute (snd (getById (s\<lparr>client := Some c\<rparr>) table ident))
                (UpdateById table (map fst data)) (map snd data @ [ident]))) \<and>
   db (snd (delete_db (s\<lparr>client := Some (failing_audit c)\<rparr>) table ident userId)) =
     db (snd (execute (snd (getById (s\<lparr>client := Some c\<rparr>) table ident))
                (DeleteById table) [ident]))"
  by (simp add: insert_db_failing_audit update_db_failing_audit delete_db_failing_audit)


text \<open>The claim at a client that reports one written row: the insert returns the id
  whether or not the audit append throws.\<close>

theorem audit_failure_is_absorbed_witness:
  "fst (insert_db (one_row_service\<lparr>client := Some (failing_audit one_row_client)\<rparr>)
          ''employees'' [(''id'', JStr ''EMP001'')] JNull) = Inr (JNum (Fin 1)) \<and>
   fst (update_db (one_row_service\<lparr>client := Some (failing_audit one_row_client)\<rparr>)
          ''employees'' (JStr ''EMP001'') [(''name'', JStr ''A'')] JNull) = Inr True \<and>
   fst (delete_db (one_row_service\<lparr>client := Some (failing_audit one_row_client)\<rparr>)
          ''employees'' (JStr ''EMP001'') JNull) = Inr True"
proof -
  have c: "one_row_service\<lparr>client := Some one_row_client\<rparr> = one_row_service"
    by (simp add: one_row_service_def)
  have i: "fst (insert_db one_row_service ''employees'' [(''id'', JStr ''EMP001'')] JNull)
             = Inr (JNum (Fin 1))"
    by (simp add: insert_db_def execute_def one_row_service_def one_row_client_def js_or_def
          changes_pos_def)
  have u: "fst (update_db one_row_service ''employees'' (JStr ''EMP001'') [(''name'', JStr ''A'')] JNull)
             = Inr True"
    by (simp add: update_db_def getById_def execute_def one_row_service_def one_row_client_def
          changes_pos_def first_row_def Let_def)
  have d: "fst (delete_db one_row_service ''employees'' (JStr ''EMP001'') JNull) = Inr True"
    by (simp add: delete_db_def getById_def execute_def one_row_service_def one_row_client_def
          changes_pos_def first_row_def Let_def)
  show ?thesis
    using audit_failure_is_absorbed [where s = one_row_service and c = one_row_client
        and table = "''employees''" and data = "[(''id'', JStr ''EMP001'')]" and userId = JNull
        and ident = "JStr ''EMP001''"]
      audit_failure_is_absorbed [where s = one_row_service and c = one_row_client
        and table = "''employees''" and data = "[(''name'', JStr ''A'')]" and userId = JNull
        and ident = "JStr ''EMP001''"]
    by (simp add: c i u d)
qed

subsection \<open>The service over the store\<close>















lemma store_update_other_table:
  "t' \<noteq> t \<Longrightarrow> tables (snd (store_update t cs vs st)) t' = tables st t'"
  by (auto simp add: store_update_def Let_def split: option.splits if_splits sum.splits)







subsection \<open>Daily totals\<close>








subsection \<open>Billable hours\<close>
















subsection \<open>The audit record of an update\<close>













subsection \<open>The uniqueness of entries\<close>


text \<open>With a job and a work order the second insert is refused, as the claim says.\<close>

lemma duplicate_entries_on_job_refused:
  "fst (insert_db example_service ''timesheet_entries'' entry_on_job JNull) = Inr (JNum (Fin 4)) \<and>
   fst (insert_db (snd (insert_db example_service ''timesheet_entries'' entry_on_job JNull))
          ''timesheet_entries'' entry_on_job JNull) = Inl (StoreError ''constraint failed'')"
  by code_simp

section \<open>Properties of the validation service\<close>

subsection \<open>The loop over the field validators\<close>















subsection \<open>Break hours\<close>













subsection \<open>Required fields\<close>











subsection \<open>Dates\<close>






















end
